theory Spec2Isabelle
  imports Main
begin

section \<open>Values of the JavaScript runtime\<close>

text \<open>
  The authentication service is TypeScript on Node. Strings are lists of characters
  (one \<open>char\<close> per code unit), an absent value (\<open>undefined\<close> or \<open>null\<close>) is \<open>None\<close>,
  and a thrown exception is the left summand of a result.
\<close>

datatype db_error =
    unique_violation string
  | foreign_key_violation string
  | string_data_right_truncation
  | invalid_text_representation
  | invalid_datetime_format

datatype error =
    Error string  \<comment> \<open>\<open>throw new Error(message)\<close>, written in the service's own code\<close>
  | JsonWebTokenError  \<comment> \<open>raised inside the jsonwebtoken library\<close>
  | BcryptError  \<comment> \<open>raised inside the bcrypt library\<close>
  | DatabaseError db_error  \<comment> \<open>the store rejected a statement\<close>

datatype number = Num int | NaN | Pos_Infinity | Neg_Infinity

datatype js_value = Null | Text string | Boolean bool | Number number | Timestamp int

type_synonym js_object = "(string \<times> js_value) list"

type_synonym env = "string \<rightharpoonup> string"

definition falsy :: "string option \<Rightarrow> bool" where
  \<comment> \<open>\<open>!v\<close> for \<open>v: string | undefined\<close>: undefined and the empty string are falsy\<close>
  "falsy v = (case v of None \<Rightarrow> True | Some s \<Rightarrow> s = [])"

definition or_else :: "string option \<Rightarrow> string \<Rightarrow> string" where
  \<comment> \<open>\<open>v || d\<close> for \<open>v: string | undefined\<close>\<close>
  "or_else v d = (case v of None \<Rightarrow> d | Some s \<Rightarrow> if s = [] then d else s)"

definition or_null :: "string option \<Rightarrow> string option" where
  \<comment> \<open>\<open>v || null\<close> for \<open>v: string | undefined\<close>\<close>
  "or_null v = (case v of None \<Rightarrow> None | Some s \<Rightarrow> if s = [] then None else Some s)"

definition startsWith :: "string \<Rightarrow> string \<Rightarrow> bool" where
  "startsWith s p = (take (length p) s = p)"

definition substring :: "string \<Rightarrow> nat \<Rightarrow> string" where
  \<comment> \<open>\<open>s.substring(n)\<close>: the code units from index \<open>n\<close> on, empty when \<open>n\<close> is past the end\<close>
  "substring s n = drop n s"

fun join :: "string \<Rightarrow> string list \<Rightarrow> string" where
  "join sep [] = []"
| "join sep [x] = x"
| "join sep (x # y # ys) = x @ sep @ join sep (y # ys)"

datatype date = Date int | Invalid_Date

definition multiply :: "number \<Rightarrow> int \<Rightarrow> number" where
  \<comment> \<open>\<open>x * k\<close> for a positive integer constant \<open>k\<close>\<close>
  "multiply x k = (case x of Num n \<Rightarrow> Num (n * k) | other \<Rightarrow> other)"

definition truthy :: "number \<Rightarrow> bool" where
  \<comment> \<open>a number is falsy when it is 0 or NaN\<close>
  "truthy x = (case x of Num n \<Rightarrow> n \<noteq> 0 | NaN \<Rightarrow> False | other \<Rightarrow> True)"

definition new_Date :: "number \<Rightarrow> date" where
  \<comment> \<open>\<open>new Date(ms)\<close>: a time value that is not finite, or is beyond 8.64e15 ms from the
      epoch, is clipped to NaN\<close>
  "new_Date x =
     (case x of
        Num ms \<Rightarrow> if \<bar>ms\<bar> \<le> 8640000000000000 then Date ms else Invalid_Date
      | other \<Rightarrow> Invalid_Date)"

definition getTime :: "date \<Rightarrow> int option" where
  \<comment> \<open>\<open>None\<close> stands for NaN\<close>
  "getTime d = (case d of Date ms \<Rightarrow> Some ms | Invalid_Date \<Rightarrow> None)"

definition number_le :: "int option \<Rightarrow> int \<Rightarrow> bool" where
  \<comment> \<open>\<open>x <= y\<close> on numbers: every comparison with NaN is false\<close>
  "number_le x y = (case x of None \<Rightarrow> False | Some a \<Rightarrow> a \<le> y)"

definition msPerDay :: int where
  "msPerDay = 86400000"

section \<open>Collaborators and the readings one call takes\<close>

datatype decoded =
    Throws  \<comment> \<open>\<open>jwt.decode\<close> raised\<close>
  | Not_Decoded  \<comment> \<open>\<open>jwt.decode\<close> returned null\<close>
  | Payload "number option"
      \<comment> \<open>a payload, with its \<open>exp\<close> claim when it has one: a number, as \<open>JWTPayload\<close>
          declares it, of whole seconds\<close>

record runtime =
  parseInt :: "string \<Rightarrow> number"
  bcrypt_hash :: "string \<Rightarrow> number \<Rightarrow> string option"
  jwt_sign :: "js_object \<Rightarrow> string \<Rightarrow> string \<Rightarrow> int \<Rightarrow> string option"
    \<comment> \<open>payload, secret, \<open>expiresIn\<close>, time of signing; \<open>None\<close> when the library raises\<close>
  jwt_verify :: "string \<Rightarrow> string \<Rightarrow> int \<Rightarrow> js_object option"
    \<comment> \<open>token, secret, time of verification; \<open>None\<close> when the library raises\<close>
  jwt_decode :: "string \<Rightarrow> decoded"
  uuid_in :: "string \<Rightarrow> string option"
    \<comment> \<open>the store's reading of a text as a UUID, in canonical form; \<open>None\<close> on bad syntax\<close>
  inet_in :: "string \<Rightarrow> string option"
    \<comment> \<open>the store's reading of a text as an INET address\<close>
  LocalTZA :: "int \<Rightarrow> bool \<Rightarrow> int"
    \<comment> \<open>the offset of the service's local time zone in ms, as ECMAScript leaves it to the
        implementation: \<open>LocalTZA t True\<close> is the offset in effect at the UTC instant \<open>t\<close>,
        \<open>LocalTZA t False\<close> the offset by which the local time value \<open>t\<close> is read\<close>

definition LocalTime :: "runtime \<Rightarrow> int \<Rightarrow> int" where
  "LocalTime R t = t + LocalTZA R t True"

definition UTC :: "runtime \<Rightarrow> int \<Rightarrow> int" where
  "UTC R t = t - LocalTZA R t False"

definition setDate_plus :: "runtime \<Rightarrow> int \<Rightarrow> int \<Rightarrow> date" where
  \<comment> \<open>\<open>d.setDate(d.getDate() + n)\<close> on a date with time value \<open>t\<close>: in local time the day
      of the month moves on by \<open>n\<close> and the time within the day stays
      (\<open>MakeDay\<close> of the same year and month with \<open>DateFromTime + n\<close> is \<open>Day + n\<close>);
      the new local time is read back as a UTC instant and clipped\<close>
  "setDate_plus R t n =
     (let local = LocalTime R t;
          newDate = local + n * msPerDay
      in new_Date (Num (UTC R newDate)))"

record draws =
  Date_now :: int  \<comment> \<open>the service's clock: \<open>Date.now()\<close>, \<open>new Date()\<close>\<close>
  NOW :: int  \<comment> \<open>the store's clock: \<open>NOW()\<close>\<close>
  uuidv4 :: string  \<comment> \<open>the random identifier \<open>uuidv4()\<close> returns\<close>
  gen_random_uuid :: string  \<comment> \<open>the primary key the store generates\<close>

section \<open>Environment validation\<close>

record EnvConfig =
  NODE_ENV :: string
  PORT :: number
  DATABASE_URL :: string
  REDIS_URL :: string
  JWT_SECRET :: string
  JWT_REFRESH_SECRET :: string
  JWT_EXPIRES_IN :: string
  JWT_REFRESH_EXPIRES_IN :: string
  SMTP_HOST :: "string option"
  SMTP_PORT :: number
  SMTP_USER :: "string option"
  SMTP_PASS :: "string option"
  FROM_EMAIL :: "string option"
  BCRYPT_ROUNDS :: number
  FRONTEND_URL :: string
  RATE_LIMIT_WINDOW_MS :: number
  RATE_LIMIT_MAX_REQUESTS :: number

definition requiredEnvVars :: "string list" where
  "requiredEnvVars =
     [''DATABASE_URL'', ''REDIS_URL'', ''JWT_SECRET'', ''JWT_REFRESH_SECRET'', ''FRONTEND_URL'']"

definition validateEnv :: "runtime \<Rightarrow> env \<Rightarrow> error + EnvConfig" where
  \<comment> \<open>a required variable is read with the assertion \<open>!\<close>: past the check it is set and not
      empty, and \<open>or_else v []\<close> is its value\<close>
  "validateEnv R e =
     (let missing = filter (\<lambda>varName. falsy (e varName)) requiredEnvVars in
      if length missing > 0 then
        Inl (Error (''Missing required environment variables: '' @ join '', '' missing))
      else Inr \<lparr>
        NODE_ENV = or_else (e ''NODE_ENV'') ''development'',
        PORT = parseInt R (or_else (e ''PORT'') ''3001''),
        DATABASE_URL = or_else (e ''DATABASE_URL'') [],
        REDIS_URL = or_else (e ''REDIS_URL'') [],
        JWT_SECRET = or_else (e ''JWT_SECRET'') [],
        JWT_REFRESH_SECRET = or_else (e ''JWT_REFRESH_SECRET'') [],
        JWT_EXPIRES_IN = or_else (e ''JWT_EXPIRES_IN'') ''15m'',
        JWT_REFRESH_EXPIRES_IN = or_else (e ''JWT_REFRESH_EXPIRES_IN'') ''7d'',
        SMTP_HOST = e ''SMTP_HOST'',
        SMTP_PORT = (if falsy (e ''SMTP_PORT'') then Num 587
                     else parseInt R (or_else (e ''SMTP_PORT'') [])),
        SMTP_USER = e ''SMTP_USER'',
        SMTP_PASS = e ''SMTP_PASS'',
        FROM_EMAIL = e ''FROM_EMAIL'',
        BCRYPT_ROUNDS = parseInt R (or_else (e ''BCRYPT_ROUNDS'') ''12''),
        FRONTEND_URL = or_else (e ''FRONTEND_URL'') [],
        RATE_LIMIT_WINDOW_MS = parseInt R (or_else (e ''RATE_LIMIT_WINDOW_MS'') ''900000''),
        RATE_LIMIT_MAX_REQUESTS = parseInt R (or_else (e ''RATE_LIMIT_MAX_REQUESTS'') ''100'')
      \<rparr>)"

definition spec_configuration_surface :: "string list" where
  \<comment> \<open>the variables behind the configuration surface as the specification lists it: store and
      cache connection strings, the two token secrets, the two expiry durations, SMTP endpoint
      and credentials, hashing cost factor, public base URL, rate-limit window and ceiling\<close>
  "spec_configuration_surface =
     [''DATABASE_URL'', ''REDIS_URL'', ''JWT_SECRET'', ''JWT_REFRESH_SECRET'',
      ''JWT_EXPIRES_IN'', ''JWT_REFRESH_EXPIRES_IN'',
      ''SMTP_HOST'', ''SMTP_PORT'', ''SMTP_USER'', ''SMTP_PASS'',
      ''BCRYPT_ROUNDS'', ''FRONTEND_URL'', ''RATE_LIMIT_WINDOW_MS'', ''RATE_LIMIT_MAX_REQUESTS'']"

section \<open>JWTUtils\<close>

record TokenPair =
  accessToken :: string
  refreshToken :: string

definition getAccessTokenSecret :: "env \<Rightarrow> error + string" where
  "getAccessTokenSecret e =
     (case e ''JWT_SECRET'' of
        None \<Rightarrow> Inl (Error ''JWT_SECRET environment variable is required'')
      | Some secret \<Rightarrow>
          if secret = [] then Inl (Error ''JWT_SECRET environment variable is required'')
          else Inr secret)"

definition getRefreshTokenSecret :: "env \<Rightarrow> error + string" where
  "getRefreshTokenSecret e =
     (case e ''JWT_REFRESH_SECRET'' of
        None \<Rightarrow> Inl (Error ''JWT_REFRESH_SECRET environment variable is required'')
      | Some secret \<Rightarrow>
          if secret = [] then Inl (Error ''JWT_REFRESH_SECRET environment variable is required'')
          else Inr secret)"

definition sign :: "runtime \<Rightarrow> js_object \<Rightarrow> string \<Rightarrow> string \<Rightarrow> int
    \<Rightarrow> error + string" where
  "sign R payload secret expiresIn t =
     (case jwt_sign R payload secret expiresIn t of
        None \<Rightarrow> Inl JsonWebTokenError
      | Some token \<Rightarrow> Inr token)"

definition verify :: "runtime \<Rightarrow> string \<Rightarrow> string \<Rightarrow> int
    \<Rightarrow> error + js_object" where
  "verify R token secret t =
     (case jwt_verify R token secret t of
        None \<Rightarrow> Inl JsonWebTokenError
      | Some payload \<Rightarrow> Inr payload)"

definition generateAccessToken :: "runtime \<Rightarrow> env \<Rightarrow> draws \<Rightarrow> js_object
    \<Rightarrow> error + string" where
  "generateAccessToken R e io payload =
     (case getAccessTokenSecret e of
        Inl err \<Rightarrow> Inl err
      | Inr secret \<Rightarrow>
          (let expiresIn = or_else (e ''JWT_EXPIRES_IN'') ''15m'' in
           sign R payload secret expiresIn (Date_now io)))"

definition generateRefreshToken :: "runtime \<Rightarrow> env \<Rightarrow> draws \<Rightarrow> error + string" where
  "generateRefreshToken R e io =
     (case getRefreshTokenSecret e of
        Inl err \<Rightarrow> Inl err
      | Inr secret \<Rightarrow>
          (let expiresIn = or_else (e ''JWT_REFRESH_EXPIRES_IN'') ''7d'' in
           sign R [(''tokenId'', Text (uuidv4 io))] secret expiresIn (Date_now io)))"

definition generateTokenPair :: "runtime \<Rightarrow> env \<Rightarrow> draws \<Rightarrow> js_object
    \<Rightarrow> error + TokenPair" where
  "generateTokenPair R e io payload =
     (case generateAccessToken R e io payload of
        Inl err \<Rightarrow> Inl err
      | Inr access \<Rightarrow>
          (case generateRefreshToken R e io of
             Inl err \<Rightarrow> Inl err
           | Inr refresh \<Rightarrow> Inr \<lparr>accessToken = access, refreshToken = refresh\<rparr>))"

definition try_catch :: "error + 'a \<Rightarrow> (error \<Rightarrow> error + 'a) \<Rightarrow> error + 'a" where
  "try_catch body handler = (case body of Inl err \<Rightarrow> handler err | Inr v \<Rightarrow> Inr v)"

definition verifyAccessToken :: "runtime \<Rightarrow> env \<Rightarrow> draws \<Rightarrow> string
    \<Rightarrow> error + js_object" where
  "verifyAccessToken R e io token =
     try_catch
       (case getAccessTokenSecret e of
          Inl err \<Rightarrow> Inl err
        | Inr secret \<Rightarrow> verify R token secret (Date_now io))
       (\<lambda>err. Inl (Error ''Invalid access token''))"

definition verifyRefreshToken :: "runtime \<Rightarrow> env \<Rightarrow> draws \<Rightarrow> string
    \<Rightarrow> error + js_object" where
  "verifyRefreshToken R e io token =
     try_catch
       (case getRefreshTokenSecret e of
          Inl err \<Rightarrow> Inl err
        | Inr secret \<Rightarrow> verify R token secret (Date_now io))
       (\<lambda>err. Inl (Error ''Invalid refresh token''))"

definition extractTokenFromHeader :: "string option \<Rightarrow> string option" where
  "extractTokenFromHeader authHeader =
     (case authHeader of
        None \<Rightarrow> None
      | Some h \<Rightarrow>
          if h = [] \<or> \<not> startsWith h ''Bearer '' then None
          else Some (substring h 7))"

definition getTokenExpiration :: "runtime \<Rightarrow> string \<Rightarrow> date option" where
  "getTokenExpiration R token =
     (case jwt_decode R token of
        Throws \<Rightarrow> None
      | Not_Decoded \<Rightarrow> None
      | Payload None \<Rightarrow> None
      | Payload (Some exp) \<Rightarrow> if truthy exp then Some (new_Date (multiply exp 1000)) else None)"

definition isTokenExpired :: "runtime \<Rightarrow> draws \<Rightarrow> string \<Rightarrow> bool" where
  "isTokenExpired R io token =
     (case getTokenExpiration R token of
        None \<Rightarrow> True
      | Some expiration \<Rightarrow> number_le (getTime expiration) (Date_now io))"

section \<open>The store: tables \<open>users\<close> and \<open>user_sessions\<close>\<close>

text \<open>
  A row is a record of its table's columns, with \<open>None\<close> for SQL NULL in a nullable
  column; a table is the list of its rows. Timestamps are milliseconds. A comparison with
  NULL is never true, so \<open>WHERE column = $1\<close> selects the rows whose column is
  \<open>Some\<close> of the parameter. A statement is either rejected under the schema of
  \<open>init.sql\<close> (a column width, a key, a reference, the syntax of a UUID, of an address or of a
  timestamp)
  or takes effect as a whole; a lost connection to the store is outside the model.
\<close>

record user_row =
  u_id :: string
  u_email :: string
  u_username :: string
  u_password_hash :: string
  u_display_name :: "string option"
  u_avatar_url :: "string option"
  u_bio :: "string option"
  u_status :: "string option"
  u_is_verified :: "bool option"
  u_verification_token :: "string option"
  u_reset_token :: "string option"
  u_reset_token_expires :: "int option"
  u_created_at :: "int option"
  u_updated_at :: "int option"
  u_last_login :: "int option"

record session_row =
  s_id :: string
  s_user_id :: "string option"
  s_refresh_token :: string
  s_device_info :: "js_object option"
  s_ip_address :: "string option"
  s_expires_at :: int
  s_created_at :: "int option"

record db =
  users :: "user_row list"
  user_sessions :: "session_row list"

definition varchar :: "nat \<Rightarrow> string \<Rightarrow> error + string" where
  \<comment> \<open>storing into VARCHAR(n): a longer text is an error, unless all that exceeds \<open>n\<close>
      is spaces, which are cut off\<close>
  "varchar n s =
     (if length s \<le> n then Inr s
      else if list_all (\<lambda>c. c = CHR '' '') (drop n s) then Inr (take n s)
      else Inl (DatabaseError string_data_right_truncation))"

definition and_then :: "error + 'a \<Rightarrow> ('a \<Rightarrow> error + 'b) \<Rightarrow> error + 'b" where
  "and_then r f = (case r of Inl err \<Rightarrow> Inl err | Inr v \<Rightarrow> f v)"

definition text_or_null :: "string option \<Rightarrow> js_value" where
  "text_or_null v = (case v of None \<Rightarrow> Null | Some s \<Rightarrow> Text s)"

definition boolean_or_null :: "bool option \<Rightarrow> js_value" where
  "boolean_or_null v = (case v of None \<Rightarrow> Null | Some b \<Rightarrow> Boolean b)"

definition timestamp_or_null :: "int option \<Rightarrow> js_value" where
  "timestamp_or_null v = (case v of None \<Rightarrow> Null | Some t \<Rightarrow> Timestamp t)"

definition insert_users :: "draws \<Rightarrow> string \<Rightarrow> string \<Rightarrow> string \<Rightarrow> string \<Rightarrow> string \<Rightarrow> bool
    \<Rightarrow> db \<Rightarrow> error + (user_row \<times> db)" where
  \<comment> \<open>\<open>INSERT INTO users (email, username, password_hash, display_name, verification_token,
      is_verified) VALUES ($1, ..., $6)\<close> under the table's declaration: the column widths,
      the defaults of the columns not named, the primary key and the two UNIQUE columns\<close>
  "insert_users io em un ph dn vt iv d =
     and_then (varchar 255 em) (\<lambda>em'.
     and_then (varchar 50 un) (\<lambda>un'.
     and_then (varchar 255 ph) (\<lambda>ph'.
     and_then (varchar 100 dn) (\<lambda>dn'.
     and_then (varchar 255 vt) (\<lambda>vt'.
       if gen_random_uuid io \<in> set (map u_id (users d)) then
         Inl (DatabaseError (unique_violation ''users_pkey''))
       else if em' \<in> set (map u_email (users d)) then
         Inl (DatabaseError (unique_violation ''users_email_key''))
       else if un' \<in> set (map u_username (users d)) then
         Inl (DatabaseError (unique_violation ''users_username_key''))
       else
         (let row = \<lparr>
            u_id = gen_random_uuid io,
            u_email = em',
            u_username = un',
            u_password_hash = ph',
            u_display_name = Some dn',
            u_avatar_url = None,
            u_bio = None,
            u_status = Some ''offline'',
            u_is_verified = Some iv,
            u_verification_token = Some vt',
            u_reset_token = None,
            u_reset_token_expires = None,
            u_created_at = Some (NOW io),
            u_updated_at = Some (NOW io),
            u_last_login = None\<rparr>
          in Inr (row, d\<lparr>users := users d @ [row]\<rparr>)))))))"

section \<open>UserModel\<close>

record CreateUserData =
  email :: string
  username :: string
  password :: string
  display_name :: "string option"

definition create :: "runtime \<Rightarrow> env \<Rightarrow> draws \<Rightarrow> CreateUserData \<Rightarrow> db
    \<Rightarrow> error + (js_object \<times> db)" where
  "create R e io userData d =
     (case bcrypt_hash R (password userData) (parseInt R (or_else (e ''BCRYPT_ROUNDS'') ''12'')) of
        None \<Rightarrow> Inl BcryptError
      | Some hashedPassword \<Rightarrow>
          (let verificationToken = uuidv4 io in
           case insert_users io
                  (email userData)
                  (username userData)
                  hashedPassword
                  (or_else (display_name userData) (username userData))
                  verificationToken
                  False
                  d of
             Inl err \<Rightarrow> Inl err
           | Inr (row, d') \<Rightarrow>
               Inr ([(''id'', Text (u_id row)),
                     (''email'', Text (u_email row)),
                     (''username'', Text (u_username row)),
                     (''display_name'', text_or_null (u_display_name row)),
                     (''status'', text_or_null (u_status row)),
                     (''is_verified'', boolean_or_null (u_is_verified row)),
                     (''created_at'', timestamp_or_null (u_created_at row)),
                     (''updated_at'', timestamp_or_null (u_updated_at row))],
                    d')))"

definition findById :: "runtime \<Rightarrow> string \<Rightarrow> db \<Rightarrow> error + user_row option" where
  "findById R ident d =
     (case uuid_in R ident of
        None \<Rightarrow> Inl (DatabaseError invalid_text_representation)
      | Some uid \<Rightarrow> Inr (find (\<lambda>u. u_id u = uid) (users d)))"

definition verifyEmail :: "draws \<Rightarrow> string \<Rightarrow> db \<Rightarrow> bool \<times> db" where
  "verifyEmail io token d =
     (let hit = (\<lambda>u. u_verification_token u = Some token);
          rowCount = length (filter hit (users d));
          d' = d\<lparr>users :=
                 map (\<lambda>u. if hit u
                           then u\<lparr>u_is_verified := Some True,
                                  u_verification_token := None,
                                  u_updated_at := Some (NOW io)\<rparr>
                           else u)
                     (users d)\<rparr>
      in (rowCount > 0, d'))"

definition createSession :: "runtime \<Rightarrow> draws \<Rightarrow> string \<Rightarrow> string \<Rightarrow> js_object option
    \<Rightarrow> string option \<Rightarrow> db \<Rightarrow> error + (session_row \<times> db)" where
  "createSession R io userId token deviceInfo ipAddress d =
     (let expiresAt = setDate_plus R (Date_now io) 7 in
      case uuid_in R userId of
        None \<Rightarrow> Inl (DatabaseError invalid_text_representation)
      | Some uid \<Rightarrow>
          and_then
            (case or_null ipAddress of
               None \<Rightarrow> Inr None
             | Some a \<Rightarrow>
                 (case inet_in R a of
                    None \<Rightarrow> Inl (DatabaseError invalid_text_representation)
                  | Some a' \<Rightarrow> Inr (Some a')))
            (\<lambda>ip.
               case expiresAt of
                 Invalid_Date \<Rightarrow> Inl (DatabaseError invalid_datetime_format)
               | Date expires \<Rightarrow>
                   if gen_random_uuid io \<in> set (map s_id (user_sessions d)) then
                     Inl (DatabaseError (unique_violation ''user_sessions_pkey''))
                   else if uid \<notin> set (map u_id (users d)) then
                     Inl (DatabaseError (foreign_key_violation ''user_sessions_user_id_fkey''))
                   else
                     (let row = \<lparr>
                        s_id = gen_random_uuid io,
                        s_user_id = Some uid,
                        s_refresh_token = token,
                        s_device_info = deviceInfo,
                        s_ip_address = ip,
                        s_expires_at = expires,
                        s_created_at = Some (NOW io)\<rparr>
                      in Inr (row, d\<lparr>user_sessions := user_sessions d @ [row]\<rparr>))))"

definition findSessionByRefreshToken :: "draws \<Rightarrow> string \<Rightarrow> db \<Rightarrow> session_row option" where
  "findSessionByRefreshToken io token d =
     (case filter (\<lambda>s. s_refresh_token s = token \<and> s_expires_at s > NOW io) (user_sessions d) of
        [] \<Rightarrow> None
      | s # rest \<Rightarrow> Some s)"

definition deleteSession :: "string \<Rightarrow> db \<Rightarrow> bool \<times> db" where
  "deleteSession token d =
     (let rowCount = length (filter (\<lambda>s. s_refresh_token s = token) (user_sessions d));
          d' = d\<lparr>user_sessions := filter (\<lambda>s. s_refresh_token s \<noteq> token) (user_sessions d)\<rparr>
      in (rowCount > 0, d'))"

section \<open>Identity Service\<close>

text \<open>
  The Identity Service is not among the files of the repository; what follows of it is
  modelled from the specification: its error \<open>InvalidTokenError\<close> and its operation
  \<open>refresh\<close>, over the functions of \<open>JWTUtils\<close> and \<open>UserModel\<close> above.
\<close>

datatype identity_error =
    InvalidTokenError
  | Propagated error  \<comment> \<open>a failure of a collaborator, passed on to the caller\<close>

definition refresh :: "runtime \<Rightarrow> env \<Rightarrow> draws \<Rightarrow> string \<Rightarrow> db
    \<Rightarrow> (identity_error + TokenPair) \<times> db" where
  \<comment> \<open>Modelled from the spec: the Identity Service's \<open>refresh\<close>, whose source file is not
      among the files of the repository. It fails with \<open>InvalidTokenError\<close> when the token
      fails signature verification or no matching non-expired session exists; on success it
      re-fetches the user, issues a new token pair and replaces the session record.\<close>
  "refresh R e io oldRefreshToken d =
     (case verifyRefreshToken R e io oldRefreshToken of
        Inl err \<Rightarrow> (Inl InvalidTokenError, d)
      | Inr payload \<Rightarrow>
     (case findSessionByRefreshToken io oldRefreshToken d of
        None \<Rightarrow> (Inl InvalidTokenError, d)
      | Some session \<Rightarrow>
     (case s_user_id session of
        None \<Rightarrow> (Inl InvalidTokenError, d)
      | Some uid \<Rightarrow>
     (case findById R uid d of
        Inl err \<Rightarrow> (Inl (Propagated err), d)
      | Inr None \<Rightarrow> (Inl InvalidTokenError, d)
      | Inr (Some user) \<Rightarrow>
     (case generateTokenPair R e io
             [(''userId'', Text (u_id user)),
              (''email'', Text (u_email user)),
              (''username'', Text (u_username user)),
              (''isVerified'', boolean_or_null (u_is_verified user))] of
        Inl err \<Rightarrow> (Inl (Propagated err), d)
      | Inr pair \<Rightarrow>
          (let d1 = snd (deleteSession oldRefreshToken d) in
           case createSession R io (u_id user) (refreshToken pair)
                  (s_device_info session) (s_ip_address session) d1 of
             Inl err \<Rightarrow> (Inl (Propagated err), d1)
           | Inr (session', d2) \<Rightarrow> (Inr pair, d2)))))))"

section \<open>Calls that draw a random identifier\<close>

text \<open>
  \<open>uuidv4()\<close> is a collaborator with a contract: it returns a version 4 UUID in its
  canonical text of 36 characters, and it returns a new one at each call. A world is the
  store together with the identifiers issued and the refresh tokens replaced so far. A call
  of \<open>create\<close> or of \<open>refresh\<close> in a world is the function above, run on an identifier
  that \<open>uuidv4()\<close> may return there: one that is well formed and not yet used, that is,
  neither issued before nor held in the store as a verification token, nor signed into a
  refresh token that a session holds or held. A call that fails issues nothing.
\<close>

definition hex :: "string \<Rightarrow> bool" where
  "hex s = list_all (\<lambda>c. c \<in> set ''0123456789abcdef'') s"

definition is_uuidv4 :: "string \<Rightarrow> bool" where
  \<comment> \<open>\<open>xxxxxxxx-xxxx-4xxx-yxxx-xxxxxxxxxxxx\<close> with hexadecimal digits \<open>x\<close> and \<open>y\<close> one of
      8, 9, a, b\<close>
  "is_uuidv4 u =
     (length u = 36
      \<and> hex (take 8 u) \<and> take 1 (drop 8 u) = ''-''
      \<and> hex (take 4 (drop 9 u)) \<and> take 1 (drop 13 u) = ''-''
      \<and> take 1 (drop 14 u) = ''4'' \<and> hex (take 3 (drop 15 u)) \<and> take 1 (drop 18 u) = ''-''
      \<and> take 1 (drop 19 u) \<in> {''8'', ''9'', ''a'', ''b''} \<and> hex (take 3 (drop 20 u))
      \<and> take 1 (drop 23 u) = ''-''
      \<and> hex (drop 24 u))"

record world =
  store :: db
  issued :: "string list"  \<comment> \<open>the identifiers \<open>uuidv4()\<close> has issued so far, latest first\<close>
  retired :: "string list"  \<comment> \<open>the refresh tokens that rotation has replaced so far\<close>

definition carries :: "runtime \<Rightarrow> string \<Rightarrow> string \<Rightarrow> bool" where
  \<comment> \<open>the token is a refresh token signed for the identifier \<open>u\<close>\<close>
  "carries R token u =
     (\<exists>secret expiresIn t. jwt_sign R [(''tokenId'', Text u)] secret expiresIn t = Some token)"

definition used :: "runtime \<Rightarrow> world \<Rightarrow> string \<Rightarrow> bool" where
  "used R w u =
     (u \<in> set (issued w)
      \<or> Some u \<in> set (map u_verification_token (users (store w)))
      \<or> (\<exists>s \<in> set (user_sessions (store w)). carries R (s_refresh_token s) u)
      \<or> (\<exists>token \<in> set (retired w). carries R token u))"

definition uuidv4_returns :: "runtime \<Rightarrow> world \<Rightarrow> string \<Rightarrow> bool" where
  "uuidv4_returns R w u = (is_uuidv4 u \<and> \<not> used R w u)"

inductive create_call :: "runtime \<Rightarrow> env \<Rightarrow> world \<Rightarrow> CreateUserData \<Rightarrow> error + js_object
    \<Rightarrow> world \<Rightarrow> bool"
  for R :: runtime and e :: env and w :: world and userData :: CreateUserData where
  created:
    "uuidv4_returns R w (uuidv4 io) \<Longrightarrow>
     create R e io userData (store w) = Inr (obj, d') \<Longrightarrow>
     create_call R e w userData (Inr obj) (w\<lparr>store := d', issued := uuidv4 io # issued w\<rparr>)"
| rejected:
    "create R e io userData (store w) = Inl err \<Longrightarrow>
     create_call R e w userData (Inl err) w"

inductive refresh_call :: "runtime \<Rightarrow> env \<Rightarrow> world \<Rightarrow> string \<Rightarrow> identity_error + TokenPair
    \<Rightarrow> world \<Rightarrow> bool"
  for R :: runtime and e :: env and w :: world and token :: string where
  rotated:
    "uuidv4_returns R w (uuidv4 io) \<Longrightarrow>
     refresh R e io token (store w) = (Inr pair, d') \<Longrightarrow>
     refresh_call R e w token (Inr pair)
       \<lparr>store = d', issued = uuidv4 io # issued w, retired = token # retired w\<rparr>"
| refused:
    "refresh R e io token (store w) = (Inl err, d') \<Longrightarrow>
     refresh_call R e w token (Inl err) (w\<lparr>store := d'\<rparr>)"

inductive registrations :: "runtime \<Rightarrow> env \<Rightarrow> world \<Rightarrow> string list \<Rightarrow> world \<Rightarrow> bool"
  for R :: runtime and e :: env and w :: world where
  \<comment> \<open>a run of registrations and email verifications from the world \<open>w\<close>, with the
      verification tokens it stored, latest first\<close>
  start: "registrations R e w [] w"
| registered:
    "registrations R e w tokens w1 \<Longrightarrow>
     create_call R e w1 userData (Inr obj) w2 \<Longrightarrow>
     u_verification_token (last (users (store w2))) = Some token \<Longrightarrow>
     registrations R e w (token # tokens) w2"
| not_registered:
    "registrations R e w tokens w1 \<Longrightarrow>
     create_call R e w1 userData (Inl err) w2 \<Longrightarrow>
     registrations R e w tokens w2"
| verified:
    "registrations R e w tokens w1 \<Longrightarrow>
     registrations R e w tokens (w1\<lparr>store := snd (verifyEmail io token (store w1))\<rparr>)"

inductive subsequent :: "runtime \<Rightarrow> world \<Rightarrow> world \<Rightarrow> bool"
  for R :: runtime and w :: world where
  \<comment> \<open>the worlds that calls of \<open>create\<close>, \<open>verifyEmail\<close> and \<open>refresh\<close> lead to from \<open>w\<close>\<close>
  here: "subsequent R w w"
| after_create:
    "subsequent R w w1 \<Longrightarrow> create_call R e w1 userData result w2 \<Longrightarrow> subsequent R w w2"
| after_verifyEmail:
    "subsequent R w w1 \<Longrightarrow>
     subsequent R w (w1\<lparr>store := snd (verifyEmail io token (store w1))\<rparr>)"
| after_refresh:
    "subsequent R w w1 \<Longrightarrow> refresh_call R e w1 token result w2 \<Longrightarrow> subsequent R w w2"

section \<open>Example inputs\<close>

definition example_runtime :: runtime where
  "example_runtime = \<lparr>
     parseInt = (\<lambda>s. if s = ''12'' then Num 12 else NaN),
     bcrypt_hash = (\<lambda>plain rounds. Some (''$2b$'' @ plain)),
     jwt_sign = (\<lambda>payload secret expiresIn t.
       Some (secret @ ''.'' @ (case payload of [(k, Text v)] \<Rightarrow> v | other \<Rightarrow> ''claims''))),
     jwt_verify = (\<lambda>token secret t. if startsWith token secret then Some [] else None),
     jwt_decode = (\<lambda>token.
       if token = ''t100'' then Payload (Some (Num 100))
       else if token = ''t900'' then Payload (Some (Num 900))
       else if token = ''open'' then Payload None
       else Not_Decoded),
     uuid_in = Some,
     inet_in = Some,
     LocalTZA = (\<lambda>t isUTC. 0)\<rparr>"




definition example_env :: env where
  "example_env =
     map_of [(''DATABASE_URL'', ''postgres://db''), (''REDIS_URL'', ''redis://cache''),
             (''JWT_SECRET'', ''as''), (''JWT_REFRESH_SECRET'', ''rs''),
             (''FRONTEND_URL'', ''https://chat'')]"

definition example_draws :: draws where
  "example_draws = \<lparr>Date_now = 500000, NOW = 500000, uuidv4 = ''id2'', gen_random_uuid = ''k2''\<rparr>"

definition alice :: user_row where
  "alice = \<lparr>
     u_id = ''k1'', u_email = ''a@x.com'', u_username = ''alice'', u_password_hash = ''$2b$pw'',
     u_display_name = Some ''alice'', u_avatar_url = None, u_bio = None,
     u_status = Some ''offline'', u_is_verified = Some False,
     u_verification_token = Some ''v1'', u_reset_token = None, u_reset_token_expires = None,
     u_created_at = Some 0, u_updated_at = Some 0, u_last_login = None\<rparr>"

definition alice_session :: session_row where
  "alice_session = \<lparr>
     s_id = ''s1'', s_user_id = Some ''k1'', s_refresh_token = ''rs.id1'',
     s_device_info = None, s_ip_address = None, s_expires_at = 600000, s_created_at = Some 0\<rparr>"

definition example_db :: db where
  "example_db = \<lparr>users = [alice], user_sessions = [alice_session]\<rparr>"

definition bob :: CreateUserData where
  "bob = \<lparr>email = ''b@x.com'', username = ''bob'', password = ''Secret123!'', display_name = None\<rparr>"

definition bob_row :: user_row where
  \<comment> \<open>the row that registering \<open>bob\<close> stores\<close>
  "bob_row = \<lparr>
     u_id = ''k2'', u_email = ''b@x.com'', u_username = ''bob'',
     u_password_hash = ''$2b$Secret123!'', u_display_name = Some ''bob'',
     u_avatar_url = None, u_bio = None, u_status = Some ''offline'',
     u_is_verified = Some False, u_verification_token = Some ''id2'',
     u_reset_token = None, u_reset_token_expires = None,
     u_created_at = Some 500000, u_updated_at = Some 500000, u_last_login = None\<rparr>"

definition bob_created :: js_object where
  \<comment> \<open>the object that registering \<open>bob\<close> returns\<close>
  "bob_created =
     [(''id'', Text ''k2''), (''email'', Text ''b@x.com''),
      (''username'', Text ''bob''), (''display_name'', Text ''bob''),
      (''status'', Text ''offline''), (''is_verified'', Boolean False),
      (''created_at'', Timestamp 500000), (''updated_at'', Timestamp 500000)]"

definition alice_verified :: user_row where
  "alice_verified =
     alice\<lparr>u_is_verified := Some True, u_verification_token := None,
           u_updated_at := Some 500000\<rparr>"








section \<open>Properties of JWTUtils\<close>

lemma startsWith_iff: "startsWith s p \<longleftrightarrow> (\<exists>t. s = p @ t)"
  unfolding startsWith_def by (metis append_eq_conv_conj)

text \<open>
  Claim C8. For every header value, absent or present, \<open>extractTokenFromHeader\<close> returns a
  value and raises nothing: the model has no error branch because the source has none. The
  result is none exactly when the header is absent or does not start with \<open>Bearer \<close>;
  otherwise it is the text after these seven characters, so the result is \<open>t\<close> exactly
  when the header is \<open>Bearer \<close> followed by \<open>t\<close>.
\<close>

theorem extractTokenFromHeader_bearer:
  "(extractTokenFromHeader h = None \<longleftrightarrow> (h = None \<or> (\<exists>s. h = Some s \<and> \<not> startsWith s ''Bearer '')))
   \<and> (\<forall>s. h = Some s \<and> startsWith s ''Bearer '' \<longrightarrow> extractTokenFromHeader h = Some (substring s 7))
   \<and> (extractTokenFromHeader h = Some t \<longleftrightarrow> h = Some (''Bearer '' @ t))"
  by (cases h) (auto simp: extractTokenFromHeader_def substring_def startsWith_iff)

theorem extractTokenFromHeader_bearer_witness:
  "extractTokenFromHeader (Some ''Bearer abc.def'') = Some ''abc.def''
   \<and> extractTokenFromHeader None = None
   \<and> extractTokenFromHeader (Some ''Basic abc'') = None
   \<and> extractTokenFromHeader (Some ''Bearer '') = Some []"
  using extractTokenFromHeader_bearer [of "Some ''Bearer abc.def''" "''abc.def''"]
    extractTokenFromHeader_bearer [of None "[]"]
    extractTokenFromHeader_bearer [of "Some ''Basic abc''" "[]"]
    extractTokenFromHeader_bearer [of "Some ''Bearer ''" "[]"]
  by (simp add: startsWith_def substring_def)

lemma number_le_getTime: "number_le (getTime d) t \<longleftrightarrow> (\<exists>ms. d = Date ms \<and> ms \<le> t)"
  by (cases d) (simp_all add: number_le_def getTime_def)

text \<open>
  Claim C7. \<open>isTokenExpired\<close> is true exactly when \<open>getTokenExpiration\<close> returns none or
  returns a date whose time value is at or before the current time of the service's clock
  (the source compares with \<open><=\<close>, so a token expiring at this very millisecond counts as
  expired); in every other case it is false.
\<close>

theorem isTokenExpired_iff:
  "isTokenExpired R io token \<longleftrightarrow>
     getTokenExpiration R token = None
     \<or> (\<exists>ms. getTokenExpiration R token = Some (Date ms) \<and> ms \<le> Date_now io)"
  by (cases "getTokenExpiration R token") (simp_all add: isTokenExpired_def number_le_getTime)

theorem isTokenExpired_iff_witness:
  "isTokenExpired example_runtime example_draws ''t100''
   \<and> \<not> isTokenExpired example_runtime example_draws ''t900''
   \<and> isTokenExpired example_runtime example_draws ''open''
   \<and> isTokenExpired example_runtime example_draws ''garbage''"
  using isTokenExpired_iff [of example_runtime example_draws "''t100''"]
    isTokenExpired_iff [of example_runtime example_draws "''t900''"]
    isTokenExpired_iff [of example_runtime example_draws "''open''"]
    isTokenExpired_iff [of example_runtime example_draws "''garbage''"]
  by (simp add: getTokenExpiration_def example_runtime_def example_draws_def new_Date_def
      multiply_def truthy_def)

lemma verifyAccessToken_cases:
  "verifyAccessToken R e io token =
     (if falsy (e ''JWT_SECRET'') then Inl (Error ''Invalid access token'')
      else case jwt_verify R token (or_else (e ''JWT_SECRET'') []) (Date_now io) of
             None \<Rightarrow> Inl (Error ''Invalid access token'')
           | Some payload \<Rightarrow> Inr payload)"
  by (simp add: verifyAccessToken_def try_catch_def verify_def getAccessTokenSecret_def
      falsy_def or_else_def split: option.splits)


lemma verifyRefreshToken_cases:
  "verifyRefreshToken R e io token =
     (if falsy (e ''JWT_REFRESH_SECRET'') then Inl (Error ''Invalid refresh token'')
      else case jwt_verify R token (or_else (e ''JWT_REFRESH_SECRET'') []) (Date_now io) of
             None \<Rightarrow> Inl (Error ''Invalid refresh token'')
           | Some payload \<Rightarrow> Inr payload)"
  by (simp add: verifyRefreshToken_def try_catch_def verify_def getRefreshTokenSecret_def
      falsy_def or_else_def split: option.splits)

text \<open>
  Claim C9. Whenever \<open>verifyAccessToken\<close> fails, the error is \<open>Invalid access token\<close>, and
  whenever \<open>verifyRefreshToken\<close> fails, the error is \<open>Invalid refresh token\<close>. In
  particular a signing secret that is absent from the environment (or empty) is caught
  inside the call and comes out as the invalid-token error, not as the error of the missing
  variable.
\<close>

theorem verify_failures_are_invalid_token:
  "(isl (verifyAccessToken R e io token) \<longrightarrow>
      verifyAccessToken R e io token = Inl (Error ''Invalid access token''))
   \<and> (isl (verifyRefreshToken R e io token) \<longrightarrow>
      verifyRefreshToken R e io token = Inl (Error ''Invalid refresh token''))
   \<and> (falsy (e ''JWT_SECRET'') \<longrightarrow>
        verifyAccessToken R e io token = Inl (Error ''Invalid access token''))
   \<and> (falsy (e ''JWT_REFRESH_SECRET'') \<longrightarrow>
        verifyRefreshToken R e io token = Inl (Error ''Invalid refresh token''))"
proof (intro conjI impI)
  assume "isl (verifyAccessToken R e io token)"
  then show "verifyAccessToken R e io token = Inl (Error ''Invalid access token'')"
    by (simp add: verifyAccessToken_cases split: if_splits option.splits)
next
  assume "isl (verifyRefreshToken R e io token)"
  then show "verifyRefreshToken R e io token = Inl (Error ''Invalid refresh token'')"
    by (simp add: verifyRefreshToken_cases split: if_splits option.splits)
next
  assume "falsy (e ''JWT_SECRET'')"
  then show "verifyAccessToken R e io token = Inl (Error ''Invalid access token'')"
    by (simp add: verifyAccessToken_cases)
next
  assume "falsy (e ''JWT_REFRESH_SECRET'')"
  then show "verifyRefreshToken R e io token = Inl (Error ''Invalid refresh token'')"
    by (simp add: verifyRefreshToken_cases)
qed

theorem verify_failures_are_invalid_token_witness:
  "falsy (Map.empty ''JWT_SECRET'') \<and> falsy (Map.empty ''JWT_REFRESH_SECRET'')
   \<and> verifyAccessToken example_runtime Map.empty example_draws ''as.claims''
       = Inl (Error ''Invalid access token'')
   \<and> verifyRefreshToken example_runtime Map.empty example_draws ''rs.id1''
       = Inl (Error ''Invalid refresh token'')"
proof -
  have a: "falsy (Map.empty ''JWT_SECRET'')" and r: "falsy (Map.empty ''JWT_REFRESH_SECRET'')"
    by (simp_all add: falsy_def)
  note access = verify_failures_are_invalid_token
    [of example_runtime Map.empty example_draws "''as.claims''"]
  note refresh = verify_failures_are_invalid_token
    [of example_runtime Map.empty example_draws "''rs.id1''"]
  from access a
  have 1: "verifyAccessToken example_runtime Map.empty example_draws ''as.claims''
      = Inl (Error ''Invalid access token'')"
    by blast
  from refresh r
  have 2: "verifyRefreshToken example_runtime Map.empty example_draws ''rs.id1''
      = Inl (Error ''Invalid refresh token'')"
    by blast
  from a r 1 2 show ?thesis by blast
qed






section \<open>Properties of the environment validation\<close>

lemma validateEnv_isl:
  "isl (validateEnv R e) \<longleftrightarrow> filter (\<lambda>varName. falsy (e varName)) requiredEnvVars \<noteq> []"
  by (simp add: validateEnv_def Let_def)

text \<open>
  Claim C5, as stated, fails: in the example environment only the five variables of
  \<open>requiredEnvVars\<close> are set; both expiry durations, the SMTP endpoint and credentials,
  the hashing cost factor and the rate-limit window and ceiling are missing, and
  \<open>validateEnv\<close> succeeds.
\<close>

theorem validateEnv_counterexample:
  "set [''JWT_EXPIRES_IN'', ''JWT_REFRESH_EXPIRES_IN'', ''SMTP_HOST'', ''SMTP_PORT'', ''SMTP_USER'',
        ''SMTP_PASS'', ''BCRYPT_ROUNDS'', ''RATE_LIMIT_WINDOW_MS'', ''RATE_LIMIT_MAX_REQUESTS'']
     \<subseteq> set spec_configuration_surface
   \<and> example_env ''JWT_EXPIRES_IN'' = None
   \<and> example_env ''JWT_REFRESH_EXPIRES_IN'' = None
   \<and> example_env ''SMTP_HOST'' = None
   \<and> example_env ''SMTP_PORT'' = None
   \<and> example_env ''SMTP_USER'' = None
   \<and> example_env ''SMTP_PASS'' = None
   \<and> example_env ''BCRYPT_ROUNDS'' = None
   \<and> example_env ''RATE_LIMIT_WINDOW_MS'' = None
   \<and> example_env ''RATE_LIMIT_MAX_REQUESTS'' = None
   \<and> \<not> isl (validateEnv example_runtime example_env)"
  by (simp add: validateEnv_isl spec_configuration_surface_def requiredEnvVars_def
      example_env_def falsy_def)

text \<open>
  Claim C5, amended. \<open>validateEnv\<close> fails exactly when one of \<open>DATABASE_URL\<close>,
  \<open>REDIS_URL\<close>, \<open>JWT_SECRET\<close>, \<open>JWT_REFRESH_SECRET\<close>, \<open>FRONTEND_URL\<close> is missing
  or empty, and succeeds otherwise. In the configuration it returns, these five carry the
  values of the environment; a missing expiry duration, SMTP port, hashing cost factor,
  rate-limit window or ceiling is replaced by its default (15m, 7d, 587, 12, 900000, 100);
  SMTP host and credentials are passed on as they are, undefined when missing.
\<close>

theorem validateEnv_required:
  "(isl (validateEnv R e) \<longleftrightarrow> (\<exists>v \<in> set requiredEnvVars. falsy (e v)))
   \<and> (isl (validateEnv R e) \<longleftrightarrow>
        falsy (e ''DATABASE_URL'') \<or> falsy (e ''REDIS_URL'') \<or> falsy (e ''JWT_SECRET'')
        \<or> falsy (e ''JWT_REFRESH_SECRET'') \<or> falsy (e ''FRONTEND_URL''))
   \<and> (\<forall>cfg. validateEnv R e = Inr cfg \<longrightarrow>
        JWT_EXPIRES_IN cfg = or_else (e ''JWT_EXPIRES_IN'') ''15m''
        \<and> JWT_REFRESH_EXPIRES_IN cfg = or_else (e ''JWT_REFRESH_EXPIRES_IN'') ''7d''
        \<and> SMTP_HOST cfg = e ''SMTP_HOST''
        \<and> SMTP_PORT cfg = (if falsy (e ''SMTP_PORT'') then Num 587
                            else parseInt R (or_else (e ''SMTP_PORT'') []))
        \<and> SMTP_USER cfg = e ''SMTP_USER''
        \<and> SMTP_PASS cfg = e ''SMTP_PASS''
        \<and> BCRYPT_ROUNDS cfg = parseInt R (or_else (e ''BCRYPT_ROUNDS'') ''12'')
        \<and> RATE_LIMIT_WINDOW_MS cfg = parseInt R (or_else (e ''RATE_LIMIT_WINDOW_MS'') ''900000'')
        \<and> RATE_LIMIT_MAX_REQUESTS cfg = parseInt R (or_else (e ''RATE_LIMIT_MAX_REQUESTS'') ''100'')
        \<and> e ''DATABASE_URL'' = Some (DATABASE_URL cfg)
        \<and> e ''REDIS_URL'' = Some (REDIS_URL cfg)
        \<and> e ''JWT_SECRET'' = Some (JWT_SECRET cfg)
        \<and> e ''JWT_REFRESH_SECRET'' = Some (JWT_REFRESH_SECRET cfg)
        \<and> e ''FRONTEND_URL'' = Some (FRONTEND_URL cfg))"
proof (intro conjI allI impI)
  show 1: "isl (validateEnv R e) \<longleftrightarrow> (\<exists>v \<in> set requiredEnvVars. falsy (e v))"
    unfolding validateEnv_isl by (simp only: filter_empty_conv) blast
  show 2: "isl (validateEnv R e) \<longleftrightarrow>
        falsy (e ''DATABASE_URL'') \<or> falsy (e ''REDIS_URL'') \<or> falsy (e ''JWT_SECRET'')
        \<or> falsy (e ''JWT_REFRESH_SECRET'') \<or> falsy (e ''FRONTEND_URL'')"
    unfolding 1 by (simp add: requiredEnvVars_def)
  fix cfg assume ok: "validateEnv R e = Inr cfg"
  then have "\<not> isl (validateEnv R e)" by simp
  with 2 have present: "\<not> falsy (e ''DATABASE_URL'')" "\<not> falsy (e ''REDIS_URL'')"
    "\<not> falsy (e ''JWT_SECRET'')" "\<not> falsy (e ''JWT_REFRESH_SECRET'')" "\<not> falsy (e ''FRONTEND_URL'')"
    by blast+
  have some: "\<not> falsy v \<Longrightarrow> v = Some (or_else v [])" for v
    by (cases v) (simp_all add: falsy_def or_else_def)
  from ok have cfg: "cfg = projr (validateEnv R e)" by simp
  have nofail: "filter (\<lambda>varName. falsy (e varName)) requiredEnvVars = []"
    using ok validateEnv_isl [of R e] by simp
  note sel = cfg validateEnv_def Let_def nofail
  show "JWT_EXPIRES_IN cfg = or_else (e ''JWT_EXPIRES_IN'') ''15m''" by (simp add: sel)
  show "JWT_REFRESH_EXPIRES_IN cfg = or_else (e ''JWT_REFRESH_EXPIRES_IN'') ''7d''" by (simp add: sel)
  show "SMTP_HOST cfg = e ''SMTP_HOST''" by (simp add: sel)
  show "SMTP_PORT cfg = (if falsy (e ''SMTP_PORT'') then Num 587
                            else parseInt R (or_else (e ''SMTP_PORT'') []))" by (simp add: sel)
  show "SMTP_USER cfg = e ''SMTP_USER''" by (simp add: sel)
  show "SMTP_PASS cfg = e ''SMTP_PASS''" by (simp add: sel)
  show "BCRYPT_ROUNDS cfg = parseInt R (or_else (e ''BCRYPT_ROUNDS'') ''12'')" by (simp add: sel)
  show "RATE_LIMIT_WINDOW_MS cfg = parseInt R (or_else (e ''RATE_LIMIT_WINDOW_MS'') ''900000'')"
    by (simp add: sel)
  show "RATE_LIMIT_MAX_REQUESTS cfg = parseInt R (or_else (e ''RATE_LIMIT_MAX_REQUESTS'') ''100'')"
    by (simp add: sel)
  show "e ''DATABASE_URL'' = Some (DATABASE_URL cfg)" using some [OF present(1)] by (simp add: sel)
  show "e ''REDIS_URL'' = Some (REDIS_URL cfg)" using some [OF present(2)] by (simp add: sel)
  show "e ''JWT_SECRET'' = Some (JWT_SECRET cfg)" using some [OF present(3)] by (simp add: sel)
  show "e ''JWT_REFRESH_SECRET'' = Some (JWT_REFRESH_SECRET cfg)"
    using some [OF present(4)] by (simp add: sel)
  show "e ''FRONTEND_URL'' = Some (FRONTEND_URL cfg)" using some [OF present(5)] by (simp add: sel)
qed

theorem validateEnv_required_witness:
  "\<not> isl (validateEnv example_runtime example_env)
   \<and> JWT_EXPIRES_IN (projr (validateEnv example_runtime example_env)) = ''15m''
   \<and> BCRYPT_ROUNDS (projr (validateEnv example_runtime example_env)) = Num 12
   \<and> falsy ((example_env(''REDIS_URL'' := None)) ''REDIS_URL'')
   \<and> isl (validateEnv example_runtime (example_env(''REDIS_URL'' := None)))"
proof -
  have present: "\<not> (falsy (example_env ''DATABASE_URL'') \<or> falsy (example_env ''REDIS_URL'')
      \<or> falsy (example_env ''JWT_SECRET'') \<or> falsy (example_env ''JWT_REFRESH_SECRET'')
      \<or> falsy (example_env ''FRONTEND_URL''))"
    by (simp add: example_env_def falsy_def)
  note ok = validateEnv_required [of example_runtime example_env]
  from ok present have 1: "\<not> isl (validateEnv example_runtime example_env)" by blast
  then have r: "validateEnv example_runtime example_env
      = Inr (projr (validateEnv example_runtime example_env))" by simp
  have d1: "or_else (example_env ''JWT_EXPIRES_IN'') ''15m'' = ''15m''"
    by (simp add: example_env_def or_else_def)
  have d2: "parseInt example_runtime (or_else (example_env ''BCRYPT_ROUNDS'') ''12'') = Num 12"
    by (simp add: example_env_def or_else_def example_runtime_def)
  from ok r have 2: "JWT_EXPIRES_IN (projr (validateEnv example_runtime example_env))
      = or_else (example_env ''JWT_EXPIRES_IN'') ''15m''" by blast
  from ok r have 3: "BCRYPT_ROUNDS (projr (validateEnv example_runtime example_env))
      = parseInt example_runtime (or_else (example_env ''BCRYPT_ROUNDS'') ''12'')" by blast
  have m: "falsy ((example_env(''REDIS_URL'' := None)) ''REDIS_URL'')" by (simp add: falsy_def)
  note missing = validateEnv_required [of example_runtime "example_env(''REDIS_URL'' := None)"]
  from missing m have 4: "isl (validateEnv example_runtime (example_env(''REDIS_URL'' := None)))"
    by blast
  from 1 2 3 m 4 d1 d2 show ?thesis by simp
qed

section \<open>Properties of registration\<close>

lemma and_then_Inr: "and_then r f = Inr y \<longleftrightarrow> (\<exists>v. r = Inr v \<and> f v = Inr y)"
  by (cases r) (simp_all add: and_then_def)


lemma insert_users_Inr:
  assumes "insert_users io em un ph dn vt iv d = Inr (row, d')"
  shows "d' = d\<lparr>users := users d @ [row]\<rparr>"
    and "u_id row = gen_random_uuid io"
    and "varchar 255 em = Inr (u_email row)"
    and "varchar 50 un = Inr (u_username row)"
    and "varchar 255 ph = Inr (u_password_hash row)"
    and "\<exists>dn'. varchar 100 dn = Inr dn' \<and> u_display_name row = Some dn'"
    and "u_status row = Some ''offline''"
    and "u_is_verified row = Some iv"
    and "\<exists>vt'. varchar 255 vt = Inr vt' \<and> u_verification_token row = Some vt'"
    and "u_created_at row = Some (NOW io)"
    and "u_updated_at row = Some (NOW io)"
    and "u_reset_token row = None"
    and "u_id row \<notin> set (map u_id (users d))"
    and "u_email row \<notin> set (map u_email (users d))"
    and "u_username row \<notin> set (map u_username (users d))"
proof -
  from assms obtain em' un' ph' dn' vt' where
    v: "varchar 255 em = Inr em'" "varchar 50 un = Inr un'" "varchar 255 ph = Inr ph'"
       "varchar 100 dn = Inr dn'" "varchar 255 vt = Inr vt'"
    and rest: "(if gen_random_uuid io \<in> set (map u_id (users d)) then
         Inl (DatabaseError (unique_violation ''users_pkey''))
       else if em' \<in> set (map u_email (users d)) then
         Inl (DatabaseError (unique_violation ''users_email_key''))
       else if un' \<in> set (map u_username (users d)) then
         Inl (DatabaseError (unique_violation ''users_username_key''))
       else
         (let row = \<lparr>
            u_id = gen_random_uuid io,
            u_email = em',
            u_username = un',
            u_password_hash = ph',
            u_display_name = Some dn',
            u_avatar_url = None,
            u_bio = None,
            u_status = Some ''offline'',
            u_is_verified = Some iv,
            u_verification_token = Some vt',
            u_reset_token = None,
            u_reset_token_expires = None,
            u_created_at = Some (NOW io),
            u_updated_at = Some (NOW io),
            u_last_login = None\<rparr>
          in Inr (row, d\<lparr>users := users d @ [row]\<rparr>))) = Inr (row, d')"
    unfolding insert_users_def and_then_Inr by blast
  from rest have fresh: "gen_random_uuid io \<notin> set (map u_id (users d))"
    "em' \<notin> set (map u_email (users d))" "un' \<notin> set (map u_username (users d))"
    by (simp_all split: if_splits)
  with rest have row: "row = \<lparr>
            u_id = gen_random_uuid io,
            u_email = em',
            u_username = un',
            u_password_hash = ph',
            u_display_name = Some dn',
            u_avatar_url = None,
            u_bio = None,
            u_status = Some ''offline'',
            u_is_verified = Some iv,
            u_verification_token = Some vt',
            u_reset_token = None,
            u_reset_token_expires = None,
            u_created_at = Some (NOW io),
            u_updated_at = Some (NOW io),
            u_last_login = None\<rparr>"
    by (simp add: Let_def)
  from rest fresh have d': "d' = d\<lparr>users := users d @ [row]\<rparr>"
    by (auto simp: Let_def)
  show "d' = d\<lparr>users := users d @ [row]\<rparr>" by (fact d')
  show "u_id row = gen_random_uuid io" by (simp add: row)
  show "varchar 255 em = Inr (u_email row)" by (simp add: row v)
  show "varchar 50 un = Inr (u_username row)" by (simp add: row v)
  show "varchar 255 ph = Inr (u_password_hash row)" by (simp add: row v)
  show "\<exists>dn'. varchar 100 dn = Inr dn' \<and> u_display_name row = Some dn'" by (simp add: row v)
  show "u_status row = Some ''offline''" by (simp add: row)
  show "u_is_verified row = Some iv" by (simp add: row)
  show "\<exists>vt'. varchar 255 vt = Inr vt' \<and> u_verification_token row = Some vt'" by (simp add: row v)
  show "u_created_at row = Some (NOW io)" by (simp add: row)
  show "u_updated_at row = Some (NOW io)" by (simp add: row)
  show "u_reset_token row = None" by (simp add: row)
  show "u_id row \<notin> set (map u_id (users d))" using fresh by (simp add: row)
  show "u_email row \<notin> set (map u_email (users d))" using fresh by (simp add: row)
  show "u_username row \<notin> set (map u_username (users d))" using fresh by (simp add: row)
qed

lemma create_Inr:
  assumes "create R e io userData d = Inr (obj, d')"
  shows "\<exists>hashedPassword row.
     bcrypt_hash R (password userData) (parseInt R (or_else (e ''BCRYPT_ROUNDS'') ''12''))
       = Some hashedPassword
     \<and> insert_users io (email userData) (username userData) hashedPassword
          (or_else (display_name userData) (username userData)) (uuidv4 io) False d
        = Inr (row, d')
     \<and> obj = [(''id'', Text (u_id row)),
               (''email'', Text (u_email row)),
               (''username'', Text (u_username row)),
               (''display_name'', text_or_null (u_display_name row)),
               (''status'', text_or_null (u_status row)),
               (''is_verified'', boolean_or_null (u_is_verified row)),
               (''created_at'', timestamp_or_null (u_created_at row)),
               (''updated_at'', timestamp_or_null (u_updated_at row))]"
  using assms unfolding create_def Let_def
  by (simp split: option.splits sum.splits prod.splits)

lemma create_example:
  "create example_runtime example_env example_draws bob example_db =
     Inr (bob_created, example_db\<lparr>users := [alice, bob_row]\<rparr>)"
  by (simp add: create_def insert_users_def and_then_def varchar_def example_runtime_def
      example_env_def example_draws_def bob_def example_db_def alice_def or_else_def Let_def
      text_or_null_def boolean_or_null_def timestamp_or_null_def bob_created_def bob_row_def)

text \<open>
  Claim C10. The object a successful \<open>create\<close> returns has exactly the properties
  \<open>id\<close>, \<open>email\<close>, \<open>username\<close>, \<open>display_name\<close>, \<open>status\<close>, \<open>is_verified\<close>,
  \<open>created_at\<close>, \<open>updated_at\<close>, read from the row that was stored; it has no
  \<open>password_hash\<close> and no reset-token property (and no \<open>verification_token\<close> either).
\<close>

theorem create_returns_projection:
  assumes "create R e io userData d = Inr (obj, d')"
  shows "map fst obj = [''id'', ''email'', ''username'', ''display_name'', ''status'',
                        ''is_verified'', ''created_at'', ''updated_at'']
    \<and> map_of obj ''password_hash'' = None
    \<and> map_of obj ''verification_token'' = None
    \<and> map_of obj ''reset_token'' = None
    \<and> map_of obj ''reset_token_expires'' = None
    \<and> (\<exists>row. users d' = users d @ [row]
          \<and> obj = [(''id'', Text (u_id row)),
                    (''email'', Text (u_email row)),
                    (''username'', Text (u_username row)),
                    (''display_name'', text_or_null (u_display_name row)),
                    (''status'', Text ''offline''),
                    (''is_verified'', Boolean False),
                    (''created_at'', Timestamp (NOW io)),
                    (''updated_at'', Timestamp (NOW io))])"
proof -
  from create_Inr [OF assms] obtain hashedPassword row where
    ins: "insert_users io (email userData) (username userData) hashedPassword
          (or_else (display_name userData) (username userData)) (uuidv4 io) False d
        = Inr (row, d')"
    and obj: "obj = [(''id'', Text (u_id row)),
               (''email'', Text (u_email row)),
               (''username'', Text (u_username row)),
               (''display_name'', text_or_null (u_display_name row)),
               (''status'', text_or_null (u_status row)),
               (''is_verified'', boolean_or_null (u_is_verified row)),
               (''created_at'', timestamp_or_null (u_created_at row)),
               (''updated_at'', timestamp_or_null (u_updated_at row))]"
    by blast
  note r = insert_users_Inr [OF ins]
  have keys: "map fst obj = [''id'', ''email'', ''username'', ''display_name'', ''status'',
                        ''is_verified'', ''created_at'', ''updated_at'']"
    by (simp add: obj)
  have absent: "map_of obj ''password_hash'' = None" "map_of obj ''verification_token'' = None"
    "map_of obj ''reset_token'' = None" "map_of obj ''reset_token_expires'' = None"
    by (simp_all add: obj)
  have users: "users d' = users d @ [row]"
    by (simp add: r(1))
  have obj': "obj = [(''id'', Text (u_id row)),
                    (''email'', Text (u_email row)),
                    (''username'', Text (u_username row)),
                    (''display_name'', text_or_null (u_display_name row)),
                    (''status'', Text ''offline''),
                    (''is_verified'', Boolean False),
                    (''created_at'', Timestamp (NOW io)),
                    (''updated_at'', Timestamp (NOW io))]"
    by (simp add: obj r(7,8,10,11) text_or_null_def boolean_or_null_def timestamp_or_null_def)
  from keys absent users obj' show ?thesis by blast
qed

theorem create_returns_projection_witness:
  "create example_runtime example_env example_draws bob example_db =
     Inr (bob_created, example_db\<lparr>users := [alice, bob_row]\<rparr>)
   \<and> map fst bob_created =
       [''id'', ''email'', ''username'', ''display_name'', ''status'',
        ''is_verified'', ''created_at'', ''updated_at'']
   \<and> map_of bob_created ''password_hash'' = None"
  using create_returns_projection [OF create_example] create_example by blast














section \<open>Properties of email verification\<close>

lemma verifyEmail_fst:
  "fst (verifyEmail io token d) \<longleftrightarrow> (\<exists>u \<in> set (users d). u_verification_token u = Some token)"
  by (auto simp: verifyEmail_def Let_def filter_empty_conv)

lemma verifyEmail_users:
  "users (snd (verifyEmail io token d)) =
     map (\<lambda>u. if u_verification_token u = Some token
               then u\<lparr>u_is_verified := Some True, u_verification_token := None,
                      u_updated_at := Some (NOW io)\<rparr>
               else u) (users d)"
  by (simp add: verifyEmail_def Let_def)

lemma verifyEmail_keeps_absent:
  assumes "\<forall>u \<in> set (users d). u_verification_token u \<noteq> Some token"
  shows "\<forall>u \<in> set (users (snd (verifyEmail io other d))). u_verification_token u \<noteq> Some token"
  using assms by (auto simp: verifyEmail_users)

lemma verifyEmail_clears:
  "\<forall>u \<in> set (users (snd (verifyEmail io token d))). u_verification_token u \<noteq> Some token"
  by (auto simp: verifyEmail_users)

lemma verifyEmail_run_keeps_absent:
  assumes "\<forall>u \<in> set (users d). u_verification_token u \<noteq> Some token"
  shows "\<forall>u \<in> set (users (foldl (\<lambda>d' c. snd (verifyEmail (fst c) (snd c) d')) d calls)).
           u_verification_token u \<noteq> Some token"
  using assms
proof (induction calls arbitrary: d)
  case Nil
  then show ?case by simp
next
  case (Cons c calls)
  from verifyEmail_keeps_absent [OF Cons.prems]
  have "\<forall>u \<in> set (users (snd (verifyEmail (fst c) (snd c) d))). u_verification_token u \<noteq> Some token" .
  from Cons.IH [OF this] show ?case by simp
qed

text \<open>
  Claim C1. \<open>verifyEmail\<close> is one conditional UPDATE. A call with token \<open>t\<close> returns true
  exactly when some user holds \<open>t\<close>; in that same step every row holding \<open>t\<close> gets
  \<open>is_verified = true\<close> and loses the token, and no other row changes. Afterwards no user
  holds \<open>t\<close>, so a second call with \<open>t\<close> returns false, also after any number of
  verifications in between: the token yields true at most once.
\<close>

theorem verifyEmail_at_most_once:
  assumes "verifyEmail io token d = (ok, d')"
  shows "(ok \<longleftrightarrow> (\<exists>u \<in> set (users d). u_verification_token u = Some token))
    \<and> length (users d') = length (users d)
    \<and> user_sessions d' = user_sessions d
    \<and> (\<forall>i < length (users d).
          if u_verification_token (users d ! i) = Some token
          then users d' ! i = (users d ! i)\<lparr>u_is_verified := Some True,
                 u_verification_token := None, u_updated_at := Some (NOW io)\<rparr>
          else users d' ! i = users d ! i)
    \<and> (\<forall>u \<in> set (users d'). u_verification_token u \<noteq> Some token)
    \<and> \<not> fst (verifyEmail io2 token d')
    \<and> \<not> fst (verifyEmail io2 token
               (foldl (\<lambda>d'' c. snd (verifyEmail (fst c) (snd c) d'')) d' calls))"
proof -
  from assms have ok: "ok = fst (verifyEmail io token d)" and d': "d' = snd (verifyEmail io token d)"
    by simp_all
  have 1: "ok \<longleftrightarrow> (\<exists>u \<in> set (users d). u_verification_token u = Some token)"
    by (simp add: ok verifyEmail_fst)
  have 2: "length (users d') = length (users d)"
    by (simp add: d' verifyEmail_users)
  have 3: "user_sessions d' = user_sessions d"
    by (simp add: d' verifyEmail_def Let_def)
  have 4: "\<forall>i < length (users d).
          if u_verification_token (users d ! i) = Some token
          then users d' ! i = (users d ! i)\<lparr>u_is_verified := Some True,
                 u_verification_token := None, u_updated_at := Some (NOW io)\<rparr>
          else users d' ! i = users d ! i"
    by (simp add: d' verifyEmail_users)
  have 5: "\<forall>u \<in> set (users d'). u_verification_token u \<noteq> Some token"
    unfolding d' by (rule verifyEmail_clears)
  have 6: "\<not> fst (verifyEmail io2 token d')"
    using 5 by (simp add: verifyEmail_fst)
  have 7: "\<not> fst (verifyEmail io2 token
               (foldl (\<lambda>d'' c. snd (verifyEmail (fst c) (snd c) d'')) d' calls))"
    using verifyEmail_run_keeps_absent [OF 5] by (simp add: verifyEmail_fst)
  from 1 2 3 4 5 6 7 show ?thesis by blast
qed

lemma verifyEmail_example:
  "verifyEmail example_draws ''v1'' example_db = (True, example_db\<lparr>users := [alice_verified]\<rparr>)"
  by (simp add: verifyEmail_def Let_def example_db_def alice_def example_draws_def
      alice_verified_def)

theorem verifyEmail_at_most_once_witness:
  "verifyEmail example_draws ''v1'' example_db = (True, example_db\<lparr>users := [alice_verified]\<rparr>)
   \<and> u_verification_token alice = Some ''v1''
   \<and> u_is_verified alice_verified = Some True
   \<and> u_verification_token alice_verified = None
   \<and> \<not> fst (verifyEmail example_draws ''v1'' (example_db\<lparr>users := [alice_verified]\<rparr>))"
proof -
  from verifyEmail_at_most_once [OF verifyEmail_example, of example_draws "[]"]
  have "\<not> fst (verifyEmail example_draws ''v1'' (example_db\<lparr>users := [alice_verified]\<rparr>))"
    by blast
  moreover have "u_verification_token alice = Some ''v1''"
    "u_is_verified alice_verified = Some True" "u_verification_token alice_verified = None"
    by (simp_all add: alice_def alice_verified_def)
  ultimately show ?thesis using verifyEmail_example by blast
qed

section \<open>Properties of sessions and of refresh-token rotation\<close>
























end
